theory Spec2Isabelle
  imports Main
begin

section \<open>WebRTCWrapper: construction and the default media source\<close>

text \<open>
  \<^verbatim>\<open>source\<close> is a device path, a file path or a camera index (\<^verbatim>\<open>str or int\<close>); an absent
  argument is Python's \<^verbatim>\<open>None\<close>.
\<close>

datatype source = SrcStr string | SrcInt int

datatype error = RuntimeError string

text \<open>
  \<^verbatim>\<open>get_default_source\<close>, lines 40-58. The argument is the value of \<^verbatim>\<open>platform.system()\<close>.
\<close>

definition get_default_source :: "string \<Rightarrow> error + source" where
  "get_default_source system =
     (if system = ''Linux'' then Inr (SrcStr ''/dev/video0'')
      else if system = ''Darwin'' then Inr (SrcStr ''default:none'')
      else if system = ''Windows'' then Inr (SrcInt 0)
      else Inl (RuntimeError ''Unsupported OS''))"

text \<open>Python truthiness of the \<^verbatim>\<open>source\<close> argument: \<^verbatim>\<open>None\<close>, \<^verbatim>\<open>""\<close> and \<^verbatim>\<open>0\<close> are falsy.\<close>

fun truthy :: "source option \<Rightarrow> bool" where
  "truthy None = False"
| "truthy (Some (SrcStr s)) = (s \<noteq> [])"
| "truthy (Some (SrcInt i)) = (i \<noteq> 0)"

text \<open>
  Line 32 of \<^verbatim>\<open>__init__\<close>: \<^verbatim>\<open>self.source = source or self.get_default_source()\<close>. The result is
  the stored \<^verbatim>\<open>self.source\<close>, or the error that aborts the construction.
\<close>

definition init_source :: "string \<Rightarrow> source option \<Rightarrow> error + source" where
  "init_source system src =
     (case src of
        Some v \<Rightarrow> if truthy (Some v) then Inr v else get_default_source system
      | None \<Rightarrow> get_default_source system)"

section \<open>The signaling broker\<close>

text \<open>
  The two keys of \<^verbatim>\<open>self.clients\<close> and \<^verbatim>\<open>self.message_queue\<close>. No key is ever added: line 83
  writes \<^verbatim>\<open>self.clients[role]\<close> only after the membership test of line 78, and the relay
  loop only uses the two literals of line 93.
\<close>

datatype role = Sender | Receiver

type_synonym chan = nat
type_synonym msg = string

text \<open>The test \<^verbatim>\<open>role not in self.clients\<close> of line 78, on the text received at line 74.\<close>

definition role_of :: "msg \<Rightarrow> role option" where
  "role_of m =
     (if m = ''sender'' then Some Sender
      else if m = ''receiver'' then Some Receiver
      else None)"

text \<open>Line 93: \<^verbatim>\<open>target = "receiver" if role == "sender" else "sender"\<close>.\<close>

fun opposite :: "role \<Rightarrow> role" where
  "opposite Sender = Receiver"
| "opposite Receiver = Sender"

text \<open>
  What \<^verbatim>\<open>await websocket.recv()\<close> gives a handler: a message, or the exception
  \<^verbatim>\<open>websockets.exceptions.ConnectionClosed\<close>.
\<close>

datatype recv = Message msg | ConnectionClosed

text \<open>
  Where the handler coroutine of a channel is suspended: at the \<^verbatim>\<open>recv\<close> of line 74 (no role
  yet), at the \<^verbatim>\<open>recv\<close> of line 91 with its local variable \<^verbatim>\<open>role\<close>, or ended.
\<close>

datatype hstate = AwaitRole | Relay role | Ended

text \<open>
  What the broker does to channels. \<open>Closed ch\<close> records the end of the handler of \<open>ch\<close>:
  the peer's closure seen at \<^verbatim>\<open>recv\<close>, or the handler leaving (the server closes the
  connection of a handler that returned or raised). The broker has no other way to close
  a channel: the source never calls \<^verbatim>\<open>close\<close>.
\<close>

datatype action = Send chan msg | Closed chan

record broker =
  clients :: "role \<Rightarrow> chan option"
  message_queue :: "role \<Rightarrow> msg list"
  handlers :: "chan \<Rightarrow> hstate"
  log :: "action list"

text \<open>Lines 35 and 37, with every handler still before its first \<^verbatim>\<open>recv\<close>.\<close>

definition init :: broker where
  "init = \<lparr> clients = (\<lambda>_. None), message_queue = (\<lambda>_. []),
            handlers = (\<lambda>_. AwaitRole), log = [] \<rparr>"

text \<open>
  Lines 86-87: \<^verbatim>\<open>while self.message_queue[role]: await websocket.send(self.message_queue[role].pop(0))\<close>.
  The sends of the loop; the queue it leaves is empty.
\<close>

fun drain :: "chan \<Rightarrow> msg list \<Rightarrow> action list" where
  "drain ws [] = []"
| "drain ws (m # q) = Send ws m # drain ws q"

text \<open>
  One step of the handler of channel \<open>ch\<close>: it is resumed with the outcome \<open>r\<close> of its pending
  \<^verbatim>\<open>recv\<close> and runs to its next \<^verbatim>\<open>recv\<close> or to its end. The handlers run on one cooperative
  scheduler whose suspension points are the channel reads (section 5 of the specification),
  so a step is not interleaved with another handler's. A channel counts as closed from
  the moment its own handler reads \<^verbatim>\<open>ConnectionClosed\<close>; a send on a channel that has not
  reached that point is taken to succeed.

  A \<^verbatim>\<open>ConnectionClosed\<close> at line 74 reaches the \<^verbatim>\<open>except\<close> clause with \<^verbatim>\<open>role\<close> unassigned: line 105
  raises before line 106 and no slot is written.
\<close>

definition handler :: "chan \<Rightarrow> recv \<Rightarrow> broker \<Rightarrow> broker" where
  "handler ch r s =
     (case handlers s ch of
        Ended \<Rightarrow> s
      | AwaitRole \<Rightarrow>
          (case r of
             ConnectionClosed \<Rightarrow>
               s\<lparr> handlers := (handlers s)(ch := Ended), log := log s @ [Closed ch] \<rparr>
           | Message m \<Rightarrow>
               (case role_of m of
                  None \<Rightarrow>
                    s\<lparr> handlers := (handlers s)(ch := Ended),
                       log := log s @ [Send ch ''Invalid role'', Closed ch] \<rparr>
                | Some rl \<Rightarrow>
                    s\<lparr> clients := (clients s)(rl := Some ch),
                       message_queue := (message_queue s)(rl := []),
                       handlers := (handlers s)(ch := Relay rl),
                       log := log s @ drain ch (message_queue s rl) \<rparr>))
      | Relay rl \<Rightarrow>
          (case r of
             ConnectionClosed \<Rightarrow>
               s\<lparr> clients := (clients s)(rl := None),
                  handlers := (handlers s)(ch := Ended),
                  log := log s @ [Closed ch] \<rparr>
           | Message m \<Rightarrow>
               (case clients s (opposite rl) of
                  Some target_ws \<Rightarrow> s\<lparr> log := log s @ [Send target_ws m] \<rparr>
                | None \<Rightarrow>
                    s\<lparr> message_queue := (message_queue s)
                         (opposite rl := message_queue s (opposite rl) @ [m]) \<rparr>)))"

text \<open>A run of the broker: the handlers' steps in the order the scheduler resumes them.\<close>

fun run :: "(chan \<times> recv) list \<Rightarrow> broker \<Rightarrow> broker" where
  "run [] s = s"
| "run ((ch, r) # es) s = run es (handler ch r s)"








section \<open>The session orchestrators\<close>

text \<open>
  What an orchestrator does to its collaborators, in the order it does it: calls on the
  engine connection \<^verbatim>\<open>pc\<close>, on the rendezvous channel \<^verbatim>\<open>websocket\<close>, on the display, the
  log, and its sleeps (in tenths of a time unit: \<^verbatim>\<open>asyncio.sleep(0.1)\<close> is \<open>Sleep 1\<close>).
  \<open>WsClose\<close> is the exit of the \<^verbatim>\<open>async with websockets.connect(...)\<close> block.
\<close>

datatype kind = Video | Audio

datatype act =
    PcAddTrack kind | PcCreateOffer | PcCreateAnswer
  | PcSetLocalDescription | PcSetRemoteDescription | PcClose
  | WsConnect | WsSend msg | WsRecvWait nat | WsClose
  | StartMonitor | Sleep nat | PltClose | WriterRelease
  | LogInfo string | LogWarning string | LogError string

text \<open>
  The outcome of \<^verbatim>\<open>asyncio.wait_for(websocket.recv(), timeout=30)\<close> and of reading the reply:
  no reply in time, a failed read, a reply that is not a descriptor (\<^verbatim>\<open>json.loads\<close> or a key
  lookup raises), or a descriptor, which the engine accepts or rejects.
\<close>

datatype reply = Timeout | Lost | Malformed | Descriptor bool

record env =
  has_video :: bool
  has_audio :: bool
  connect_ok :: bool
  local_sdp :: msg
  received :: reply

text \<open>
  The keep-alive loop of lines 179-181 and the watcher of lines 164-177, which run on one
  scheduler. Time is counted in tenths of a time unit; each sample is what the engine
  shows at one tenth: \<^verbatim>\<open>video_track.readyState\<close> and \<^verbatim>\<open>pc.iceConnectionState\<close>. \<open>mon\<close> says
  whether the watcher is still in its loop, \<open>k\<close> how many tenths the main loop still
  sleeps. The result is the calls made and whether the main loop was left: a run whose
  samples end before \<^verbatim>\<open>"closed"\<close> is seen has not left it.
\<close>

fun sender_active :: "bool \<Rightarrow> nat \<Rightarrow> (string \<times> string) list \<Rightarrow> act list \<times> bool" where
  "sender_active mon k [] = ([], False)"
| "sender_active mon k ((ready, ice) # rest) =
     (if k = 0 \<and> ice = ''closed'' then ([], True)
      else
        (case sender_active (mon \<and> ready = ''live'') (if k = 0 then 9 else k - 1) rest of
           (tr, left) \<Rightarrow>
             ((if k = 0 then [Sleep 10] else []) @
              (if mon then
                 (if ready = ''live'' then [Sleep 1]
                  else [LogInfo ''Video track ended, closing connection'', PcClose])
               else []) @ tr, left)))"

text \<open>Lines 184-187, after the \<^verbatim>\<open>async with\<close> block was left.\<close>

definition sender_finally :: "act list" where
  "sender_finally = [PcClose, LogInfo ''Sender connection closed'']"

text \<open>Lines 162-181 and, when the loop is left, the way out.\<close>

definition sender_session :: "bool \<Rightarrow> (string \<times> string) list \<Rightarrow> act list \<times> bool" where
  "sender_session video samples =
     (case sender_active video 0 samples of
        (tr, left) \<Rightarrow>
          ((if video then [StartMonitor] else []) @ tr @
           (if left then WsClose # sender_finally else []), left))"

text \<open>
  \<^verbatim>\<open>run_sender\<close>, lines 113-187. The sends of lines 143-148 are taken to succeed. An exception
  inside the \<^verbatim>\<open>async with\<close> block leaves the block (\<open>WsClose\<close>) before line 183 logs it.
\<close>

definition run_sender :: "env \<Rightarrow> (string \<times> string) list \<Rightarrow> act list \<times> bool" where
  "run_sender e samples =
     (let setup =
            (if has_video e then [PcAddTrack Video, LogInfo ''Added video track''] else []) @
            (if has_audio e then [PcAddTrack Audio, LogInfo ''Added audio track''] else []) @
            [PcCreateOffer, PcSetLocalDescription];
          failed = WsClose # LogError ''Sender connection error'' # sender_finally
      in
        if \<not> connect_ok e
        then (setup @ WsConnect # LogError ''Sender connection error'' # sender_finally, True)
        else
          (let hello = setup @ [WsConnect, WsSend ''sender'', WsSend (local_sdp e), WsRecvWait 30]
           in case received e of
                Timeout \<Rightarrow>
                  (hello @ LogError ''Timeout waiting for answer SDP'' # WsClose # sender_finally,
                   True)
              | Lost \<Rightarrow> (hello @ failed, True)
              | Malformed \<Rightarrow> (hello @ failed, True)
              | Descriptor ok \<Rightarrow>
                  if \<not> ok then (hello @ PcSetRemoteDescription # failed, True)
                  else
                    (case sender_session (has_video e) samples of
                       (tr, left) \<Rightarrow> (hello @ PcSetRemoteDescription # tr, left))))"

text \<open>
  What happens to the responder between its negotiation and its end: the keep-alive loop
  of lines 329-331 reads \<^verbatim>\<open>pc.iceConnectionState\<close>, the callback of lines 301-308 is called
  with the state the engine shows, a key is pressed in the window (lines 258-268), or
  \<^verbatim>\<open>track.recv()\<close> raises \<^verbatim>\<open>MediaStreamError\<close> in a \<^verbatim>\<open>display_video\<close> task (lines 247-253, with
  whether \<^verbatim>\<open>video_writer\<close> is set). \<^verbatim>\<open>asyncio.create_task(pc.close())\<close> is recorded as \<open>PcClose\<close>.
  The \<^verbatim>\<open>SIGINT\<close> handler stops the event loop itself and is left out. The log text of
  line 266 is written without its quotation marks.
\<close>

datatype revent = Poll string | IceChange string | KeyPress string | StreamEnd bool

fun receiver_active :: "revent list \<Rightarrow> act list \<times> bool" where
  "receiver_active [] = ([], False)"
| "receiver_active (Poll ice # rest) =
     (if ice = ''closed'' then ([], True)
      else (case receiver_active rest of (tr, left) \<Rightarrow> (Sleep 10 # tr, left)))"
| "receiver_active (IceChange ice # rest) =
     (case receiver_active rest of
        (tr, left) \<Rightarrow>
          ((if ice = ''closed''
            then [LogWarning ''Connection closed by peer'', PltClose, PcClose] else []) @ tr,
           left))"
| "receiver_active (KeyPress key # rest) =
     (case receiver_active rest of
        (tr, left) \<Rightarrow>
          ((if key = ''q''
            then [LogInfo ''q pressed, closing window'', PltClose, PcClose] else []) @ tr,
           left))"
| "receiver_active (StreamEnd writer # rest) =
     (case receiver_active rest of
        (tr, left) \<Rightarrow>
          (LogWarning ''Stream ended or connection closed'' # PcClose # PltClose #
           (if writer then [WriterRelease] else []) @ tr, left))"

text \<open>Lines 335-339.\<close>

definition receiver_finally :: "act list" where
  "receiver_finally = [PcClose, PltClose, LogInfo ''Receiver connection closed'']"

text \<open>
  \<^verbatim>\<open>run_receiver\<close>, lines 189-339; \<open>received e\<close> is here the outcome of waiting for the offer
  and \<open>local_sdp e\<close> the answer sent back. The sends of lines 277 and 295 are taken to succeed.
\<close>

definition run_receiver :: "env \<Rightarrow> revent list \<Rightarrow> act list \<times> bool" where
  "run_receiver e events =
     (let failed = WsClose # LogError ''Receiver error'' # receiver_finally
      in
        if \<not> connect_ok e
        then (WsConnect # LogError ''Receiver error'' # receiver_finally, True)
        else
          (let hello = [WsConnect, WsSend ''receiver'',
                        LogInfo ''Connected to signaling server'', WsRecvWait 30]
           in case received e of
                Timeout \<Rightarrow>
                  (hello @ LogError ''Timeout waiting for offer SDP'' # WsClose # receiver_finally,
                   True)
              | Lost \<Rightarrow> (hello @ failed, True)
              | Malformed \<Rightarrow> (hello @ failed, True)
              | Descriptor ok \<Rightarrow>
                  if \<not> ok then (hello @ PcSetRemoteDescription # failed, True)
                  else
                    (case receiver_active events of
                       (tr, left) \<Rightarrow>
                         (hello @ [PcSetRemoteDescription, PcCreateAnswer, PcSetLocalDescription,
                                   WsSend (local_sdp e), LogInfo ''Sent answer SDP''] @ tr @
                          (if left then WsClose # receiver_finally else []), left))))"

section \<open>The default media source\<close>

text \<open>
  C10. Constructed without a media source (absent or falsy), the wrapper takes the
  default of the operating system: \<^verbatim>\<open>/dev/video0\<close> on Linux, \<^verbatim>\<open>default:none\<close> on Darwin, camera
  index 0 on Windows, and on any other system the construction raises \<^verbatim>\<open>RuntimeError\<close>; a
  truthy source given by the caller is stored as it is.
\<close>

theorem init_source_default:
  "(\<not> truthy src \<longrightarrow> init_source sys src = get_default_source sys) \<and>
   (truthy src \<longrightarrow> (\<exists>v. src = Some v \<and> init_source sys src = Inr v)) \<and>
   get_default_source ''Linux'' = Inr (SrcStr ''/dev/video0'') \<and>
   get_default_source ''Darwin'' = Inr (SrcStr ''default:none'') \<and>
   get_default_source ''Windows'' = Inr (SrcInt 0) \<and>
   (sys \<noteq> ''Linux'' \<and> sys \<noteq> ''Darwin'' \<and> sys \<noteq> ''Windows'' \<longrightarrow>
      (\<exists>e. get_default_source sys = Inl (RuntimeError e)))"
proof -
  have falsy: "\<not> truthy src \<Longrightarrow> init_source sys src = get_default_source sys"
    by (cases src) (simp_all add: init_source_def)
  have given: "truthy src \<Longrightarrow> \<exists>v. src = Some v \<and> init_source sys src = Inr v"
    by (cases src) (simp_all add: init_source_def)
  show ?thesis
    using falsy given by (simp add: get_default_source_def)
qed

theorem init_source_default_witness:
  "init_source ''Linux'' None = Inr (SrcStr ''/dev/video0'') \<and>
   init_source ''Windows'' (Some (SrcStr [])) = Inr (SrcInt 0) \<and>
   init_source ''Darwin'' (Some (SrcInt 0)) = Inr (SrcStr ''default:none'') \<and>
   init_source ''FreeBSD'' None = Inl (RuntimeError ''Unsupported OS'') \<and>
   init_source ''FreeBSD'' (Some (SrcStr ''video.mp4'')) = Inr (SrcStr ''video.mp4'')"
  using init_source_default [of None "''Linux''"]
    init_source_default [of "Some (SrcStr [])" "''Windows''"]
    init_source_default [of "Some (SrcInt 0)" "''Darwin''"]
    init_source_default [of None "''FreeBSD''"]
    init_source_default [of "Some (SrcStr ''video.mp4'')" "''FreeBSD''"]
  by (simp add: get_default_source_def)

section \<open>The broker: one step\<close>

lemma drain_map: "drain ws q = map (Send ws) q"
  by (induction q) simp_all



text \<open>
  C3, as the source has it. A channel that declares a role whose slot holds another
  channel takes the slot; the channel it supersedes is not closed: its handler stays in
  its relay loop, and the step adds to the log only the sends of the drain.
\<close>

theorem rebind_keeps_old_open:
  assumes "handlers s ch = AwaitRole" and "role_of m = Some R" and "clients s R = Some old"
    and "old \<noteq> ch"
  shows "clients (handler ch (Message m) s) R = Some ch \<and>
         handlers (handler ch (Message m) s) old = handlers s old \<and>
         log (handler ch (Message m) s) = log s @ map (Send ch) (message_queue s R) \<and>
         Closed old \<notin> set (map (Send ch) (message_queue s R))"
  using assms by (auto simp: handler_def drain_map)

theorem rebind_keeps_old_open_witness:
  "clients (handler 2 (Message ''sender'') (run [(1, Message ''sender'')] init)) Sender = Some 2 \<and>
   handlers (handler 2 (Message ''sender'') (run [(1, Message ''sender'')] init)) 1 =
     Relay Sender \<and>
   log (handler 2 (Message ''sender'') (run [(1, Message ''sender'')] init)) = []"
  using rebind_keeps_old_open [of "run [(1, Message ''sender'')] init" 2 "''sender''" Sender 1]
  by (simp add: handler_def init_def role_of_def)

theorem superseded_channel_left_open:
  "clients (run [(1, Message ''sender'')] init) Sender = Some 1 \<and>
   clients (run [(1, Message ''sender''), (2, Message ''sender'')] init) Sender = Some 2 \<and>
   Closed 1 \<notin> set (log (run [(1, Message ''sender''), (2, Message ''sender'')] init)) \<and>
   log (run [(1, Message ''sender''), (2, Message ''sender''), (3, Message ''receiver''),
             (1, Message ''late'')] init) = [Send 3 ''late'']"
  by (simp add: handler_def init_def role_of_def)





section \<open>The broker: runs\<close>






























section \<open>The orchestrators: negotiation timeout\<close>

text \<open>
  C7. In both orchestrators, when no reply arrives within the 30 time units of the wait,
  the run reports the timeout, never applies a descriptor to the engine, connects and
  waits once only, leaves the rendezvous channel, closes the engine connection and
  returns.
\<close>

theorem negotiation_timeout:
  assumes "connect_ok e" and "received e = Timeout"
  shows "run_sender e samples =
           ((if has_video e then [PcAddTrack Video, LogInfo ''Added video track''] else []) @
            (if has_audio e then [PcAddTrack Audio, LogInfo ''Added audio track''] else []) @
            [PcCreateOffer, PcSetLocalDescription, WsConnect, WsSend ''sender'',
             WsSend (local_sdp e), WsRecvWait 30, LogError ''Timeout waiting for answer SDP'',
             WsClose, PcClose, LogInfo ''Sender connection closed''], True) \<and>
         run_receiver e events =
           ([WsConnect, WsSend ''receiver'', LogInfo ''Connected to signaling server'',
             WsRecvWait 30, LogError ''Timeout waiting for offer SDP'',
             WsClose, PcClose, PltClose, LogInfo ''Receiver connection closed''], True) \<and>
         PcSetRemoteDescription \<notin> set (fst (run_sender e samples)) \<and>
         PcSetRemoteDescription \<notin> set (fst (run_receiver e events)) \<and>
         count_list (fst (run_sender e samples)) WsConnect = 1 \<and>
         count_list (fst (run_receiver e events)) WsConnect = 1 \<and>
         count_list (fst (run_sender e samples)) (WsRecvWait 30) = 1 \<and>
         count_list (fst (run_receiver e events)) (WsRecvWait 30) = 1"
  using assms
  by (simp add: run_sender_def run_receiver_def sender_finally_def receiver_finally_def Let_def)


theorem negotiation_timeout_witness:
  "run_sender
     \<lparr>has_video = True, has_audio = False, connect_ok = True, local_sdp = ''offer'',
      received = Timeout\<rparr> [] =
     ([PcAddTrack Video, LogInfo ''Added video track'', PcCreateOffer, PcSetLocalDescription,
       WsConnect, WsSend ''sender'', WsSend ''offer'', WsRecvWait 30,
       LogError ''Timeout waiting for answer SDP'', WsClose, PcClose,
       LogInfo ''Sender connection closed''], True) \<and>
   run_receiver
     \<lparr>has_video = True, has_audio = False, connect_ok = True, local_sdp = ''offer'',
      received = Timeout\<rparr> [] =
     ([WsConnect, WsSend ''receiver'', LogInfo ''Connected to signaling server'',
       WsRecvWait 30, LogError ''Timeout waiting for offer SDP'',
       WsClose, PcClose, PltClose, LogInfo ''Receiver connection closed''], True)"
  using negotiation_timeout [of
      "\<lparr>has_video = True, has_audio = False, connect_ok = True, local_sdp = ''offer'',
        received = Timeout\<rparr>" "[]" "[]"]
  by simp

section \<open>The initiator: end of the video track\<close>





section \<open>The orchestrators: teardown\<close>










end
